theory Spec2Isabelle
  imports Main "HOL-Library.Finite_Map" "HOL-Library.Word"
begin

section \<open>The grid strategy of bbgo: data model\<close>

text \<open>
  The development follows \<^verbatim>\<open>pkg/strategy/grid/strategy.go\<close>. Amounts of money
  (prices, quantities, balances, band values) are \<^verbatim>\<open>float64\<close> in the source. They
  are kept abstract here: a type \<open>'a\<close> of which only the comparison with zero, the
  subtraction and the addition are used, and of which no arithmetic law is assumed.
  Every statement below therefore holds for whatever \<open>-\<close> and \<open>+\<close> compute, rounded
  or exact.
\<close>

text \<open>
  The types of orders belong to the package \<^verbatim>\<open>types\<close>, whose declarations are not
  among the sources at hand. The sides, the order type and the statuses \<^verbatim>\<open>Filled\<close>,
  \<^verbatim>\<open>Canceled\<close> and \<^verbatim>\<open>Rejected\<close> are the constants the strategy names; the fields of
  the records are the ones it reads and writes.
\<close>

datatype SideType = SideTypeBuy | SideTypeSell

datatype OrderType = OrderTypeLimit | OrderTypeMarket

text \<open>
  Modelled from the spec: the statuses of an order are New, PartiallyFilled, Filled,
  Canceled and Rejected; the first two are not named in the strategy, which treats them
  in the default branch of its switch.
\<close>

datatype OrderStatus =
    OrderStatusNew
  | OrderStatusPartiallyFilled
  | OrderStatusFilled
  | OrderStatusCanceled
  | OrderStatusRejected

record Market =
  BaseCurrency :: string
  QuoteCurrency :: string

record 'a Balance =
  Available :: 'a

text \<open>
  \<^verbatim>\<open>types.SubmitOrder\<close> with the fields the strategy fills in (lines 100--108), and
  \<^verbatim>\<open>types.Order\<close>, which extends it by the identity the exchange assigns and by the
  status.
\<close>

record 'a SubmitOrder =
  Symbol :: string
  Side :: SideType
  Type :: OrderType
  Market :: Market
  Quantity :: 'a
  Price :: 'a
  TimeInForce :: string

record 'a Order = "'a SubmitOrder" +
  OrderID :: "64 word"
  Status :: OrderStatus

subsection \<open>The local book of active orders\<close>

text \<open>
  Modelled from the spec: \<^verbatim>\<open>types.LocalActiveOrderBook\<close> and its methods
  (\<^verbatim>\<open>NewLocalActiveOrderBook\<close>, \<^verbatim>\<open>Add\<close>, \<^verbatim>\<open>Delete\<close>, \<^verbatim>\<open>WriteOff\<close>,
  \<^verbatim>\<open>NumOfBids\<close>, \<^verbatim>\<open>NumOfAsks\<close>, \<^verbatim>\<open>Orders\<close>, \<^verbatim>\<open>Bids.Len\<close>, \<^verbatim>\<open>Asks.Len\<close>) are
  code of the repository that is not among the sources at hand. The spec describes the
  book as two disjoint mappings from order id to order, one for each side, an id being in
  at most one of them, with these operations:
  \<^item> \<open>Add\<close>: idempotent upsert by id;
  \<^item> \<open>Delete\<close>: remove by id, nothing happens if the id is absent;
  \<^item> \<open>WriteOff\<close>: remove by id, as \<open>Delete\<close> does;
  \<^item> the two counts: the size of each mapping;
  \<^item> the snapshot: the orders now in the book.
  A finite map has a size, so the counts need no side condition.
\<close>

record 'a LocalActiveOrderBook =
  Bids :: "(64 word, 'a Order) fmap"
  Asks :: "(64 word, 'a Order) fmap"

text \<open>
  Modelled from the spec: \<^verbatim>\<open>NewLocalActiveOrderBook()\<close>; the book of a process that
  starts is empty.
\<close>

definition NewLocalActiveOrderBook :: "'a LocalActiveOrderBook" where
  "NewLocalActiveOrderBook = \<lparr>Bids = fmempty, Asks = fmempty\<rparr>"

text \<open>
  Modelled from the spec: the upsert of one order. The order goes to the mapping of its
  side under its id, replacing an entry of that id; the id leaves the other mapping, so
  that it stays in at most one of them.
\<close>

definition upsert :: "'a Order \<Rightarrow> 'a LocalActiveOrderBook \<Rightarrow> 'a LocalActiveOrderBook" where
  "upsert order b =
     (case Side order of
        SideTypeBuy \<Rightarrow>
          \<lparr>Bids = fmupd (OrderID order) order (Bids b), Asks = fmdrop (OrderID order) (Asks b)\<rparr>
      | SideTypeSell \<Rightarrow>
          \<lparr>Bids = fmdrop (OrderID order) (Bids b), Asks = fmupd (OrderID order) order (Asks b)\<rparr>)"

text \<open>Modelled from the spec: \<^verbatim>\<open>Add(orders...)\<close>, the upsert of each order in turn.\<close>

fun Add :: "'a Order list \<Rightarrow> 'a LocalActiveOrderBook \<Rightarrow> 'a LocalActiveOrderBook" where
  "Add [] b = b"
| "Add (order # orders) b = Add orders (upsert order b)"

text \<open>Modelled from the spec: \<^verbatim>\<open>Delete(order)\<close>, removal by id.\<close>

definition Delete :: "'a Order \<Rightarrow> 'a LocalActiveOrderBook \<Rightarrow> 'a LocalActiveOrderBook" where
  "Delete order b =
     \<lparr>Bids = fmdrop (OrderID order) (Bids b), Asks = fmdrop (OrderID order) (Asks b)\<rparr>"

text \<open>
  Modelled from the spec: \<^verbatim>\<open>WriteOff(order)\<close>, which the spec distinguishes from
  \<open>Delete\<close> for observability only, not in behaviour.
\<close>

definition WriteOff :: "'a Order \<Rightarrow> 'a LocalActiveOrderBook \<Rightarrow> 'a LocalActiveOrderBook" where
  "WriteOff order b = Delete order b"

text \<open>Modelled from the spec: the counts, \<^verbatim>\<open>NumOfBids()\<close> and \<^verbatim>\<open>Bids.Len()\<close> alike.\<close>

definition NumOfBids :: "'a LocalActiveOrderBook \<Rightarrow> nat" where
  "NumOfBids b = fcard (fmdom (Bids b))"

text \<open>Modelled from the spec: \<^verbatim>\<open>NumOfAsks()\<close> and \<^verbatim>\<open>Asks.Len()\<close>, the other count.\<close>

definition NumOfAsks :: "'a LocalActiveOrderBook \<Rightarrow> nat" where
  "NumOfAsks b = fcard (fmdom (Asks b))"

text \<open>
  Modelled from the spec: the snapshot \<^verbatim>\<open>Orders()\<close>, the orders of both mappings; the
  strategy hands it to the cancellation when it shuts down (line 225).
\<close>

definition Orders :: "'a LocalActiveOrderBook \<Rightarrow> 'a Order fset" where
  "Orders b = fmran (Bids b) |\<union>| fmran (Asks b)"

text \<open>An id is tracked when one of the two mappings has it.\<close>

definition tracked :: "64 word \<Rightarrow> 'a LocalActiveOrderBook \<Rightarrow> bool" where
  "tracked i b \<longleftrightarrow> i |\<in>| fmdom (Bids b) \<or> i |\<in>| fmdom (Asks b)"

subsection \<open>The strategy and what it reads from outside\<close>

text \<open>
  The fields of \<^verbatim>\<open>Strategy\<close> (lines 29--70) that the order management uses.
  \<^verbatim>\<open>GridNum\<close> is a Go \<^verbatim>\<open>int\<close>, taken as 64 bits wide and read as a signed number.
  \<^verbatim>\<open>GridPips\<close> is a \<^verbatim>\<open>fixedpoint.Value\<close>, a type of a package outside the sources
  at hand: it is kept abstract as \<open>'f\<close>.
\<close>

record ('f, 'a) Strategy =
  Market :: Market
  Symbol :: string
  GridPips :: 'f
  GridNum :: "64 word"
  BaseQuantity :: 'a
  activeOrders :: "'a LocalActiveOrderBook"

text \<open>
  What one tick reads from its collaborators: the conversion \<^verbatim>\<open>GridPips.Float64()\<close>,
  the balances of the account (\<^verbatim>\<open>session.Account.Balances()\<close>), the two band values of
  the indicator (\<^verbatim>\<open>s.boll.LastDownBand()\<close>, \<^verbatim>\<open>s.boll.LastUpBand()\<close>) and the answer of
  the gateway to a batch (\<^verbatim>\<open>orderExecutor.SubmitOrders\<close>), an error being \<open>Inl\<close>.
\<close>

record ('f, 'a) Env =
  Float64 :: "'f \<Rightarrow> 'a"
  Balances :: "string \<rightharpoonup> 'a Balance"
  LastDownBand :: 'a
  LastUpBand :: 'a
  SubmitOrders :: "'a SubmitOrder list \<Rightarrow> string + 'a Order list"

text \<open>
  The strategy with the effects that leave it: the batches handed to the gateway, in
  order, and the errors written to the log.
\<close>

record ('f, 'a) World =
  strategy :: "('f, 'a) Strategy"
  submitted :: "'a SubmitOrder list list"
  errorLog :: "string list"

section \<open>The reconciler: the callback of \<^verbatim>\<open>OnOrderUpdate\<close>\<close>

text \<open>Lines 197--216 of \<^verbatim>\<open>Run\<close>.\<close>

definition OnOrderUpdate :: "'a Order \<Rightarrow> ('f, 'a) Strategy \<Rightarrow> ('f, 'a) Strategy" where
  "OnOrderUpdate order s =
     (if SubmitOrder.Symbol order \<noteq> Strategy.Symbol s then s
      else case Status order of
        OrderStatusFilled \<Rightarrow> s\<lparr>activeOrders := WriteOff order (activeOrders s)\<rparr>
      | OrderStatusCanceled \<Rightarrow> s\<lparr>activeOrders := Delete order (activeOrders s)\<rparr>
      | OrderStatusRejected \<Rightarrow> s\<lparr>activeOrders := Delete order (activeOrders s)\<rparr>
      | _ \<Rightarrow> s\<lparr>activeOrders := Add [order] (activeOrders s)\<rparr>)"

text \<open>Notifications processed one after the other, in the order of their delivery.\<close>

fun OnOrderUpdates :: "'a Order list \<Rightarrow> ('f, 'a) Strategy \<Rightarrow> ('f, 'a) Strategy" where
  "OnOrderUpdates [] s = s"
| "OnOrderUpdates (order # orders) s = OnOrderUpdates orders (OnOrderUpdate order s)"

section \<open>The replenishment\<close>

text \<open>
  The result of an arithmetic operation on Go's \<^verbatim>\<open>int\<close> (64 bits, two's complement):
  the mathematical result wrapped into the range from \<open>- 2 ^ 63\<close> to \<open>2 ^ 63 - 1\<close>.
\<close>

definition int64 :: "int \<Rightarrow> int" where
  "int64 x = (x + 2 ^ 63) mod 2 ^ 64 - 2 ^ 63"

text \<open>
  The loop of lines 98--111: \<open>n\<close> rungs are still to be made and \<open>startPrice\<close> is the
  price of the next one.
\<close>

fun bidOrders :: "('f, 'a::minus) Env \<Rightarrow> ('f, 'a) Strategy \<Rightarrow> nat \<Rightarrow> 'a \<Rightarrow> 'a SubmitOrder list" where
  "bidOrders env s 0 startPrice = []"
| "bidOrders env s (Suc n) startPrice =
     \<lparr>SubmitOrder.Symbol = Strategy.Symbol s,
      Side = SideTypeBuy,
      Type = OrderTypeLimit,
      SubmitOrder.Market = Strategy.Market s,
      Quantity = BaseQuantity s,
      Price = startPrice,
      TimeInForce = ''GTC''\<rparr>
     # bidOrders env s n (startPrice - Float64 env (GridPips s))"

text \<open>The loop of lines 143--156.\<close>

fun askOrders :: "('f, 'a::plus) Env \<Rightarrow> ('f, 'a) Strategy \<Rightarrow> nat \<Rightarrow> 'a \<Rightarrow> 'a SubmitOrder list" where
  "askOrders env s 0 startPrice = []"
| "askOrders env s (Suc n) startPrice =
     \<lparr>SubmitOrder.Symbol = Strategy.Symbol s,
      Side = SideTypeSell,
      Type = OrderTypeLimit,
      SubmitOrder.Market = Strategy.Market s,
      Quantity = BaseQuantity s,
      Price = startPrice,
      TimeInForce = ''GTC''\<rparr>
     # askOrders env s n (startPrice + Float64 env (GridPips s))"

text \<open>Lines 77--120. A batch reaches the gateway only where the source calls it.\<close>

definition updateBidOrders ::
  "('f, 'a::{zero,ord,minus}) Env \<Rightarrow> ('f, 'a) World \<Rightarrow> ('f, 'a) World" where
  "updateBidOrders env w =
     (let s = strategy w in
      case Balances env (QuoteCurrency (Strategy.Market s)) of
        None \<Rightarrow> w
      | Some balance \<Rightarrow>
          if Available balance \<le> 0 then w
          else
            let numOrders = int64 (sint (GridNum s) - int (NumOfBids (activeOrders s))) in
            if numOrders \<le> 0 then w
            else
              let downBand = LastDownBand env in
              if downBand \<le> 0 then w
              else
                let submitOrders = bidOrders env s (nat numOrders) downBand in
                case SubmitOrders env submitOrders of
                  Inl err \<Rightarrow>
                    w\<lparr>submitted := submitted w @ [submitOrders],
                      errorLog := errorLog w @ [''submit bid order error'']\<rparr>
                | Inr orders \<Rightarrow>
                    w\<lparr>strategy := s\<lparr>activeOrders := Add orders (activeOrders s)\<rparr>,
                      submitted := submitted w @ [submitOrders]\<rparr>)"

text \<open>Lines 122--166.\<close>

definition updateAskOrders ::
  "('f, 'a::{zero,ord,plus}) Env \<Rightarrow> ('f, 'a) World \<Rightarrow> ('f, 'a) World" where
  "updateAskOrders env w =
     (let s = strategy w in
      case Balances env (BaseCurrency (Strategy.Market s)) of
        None \<Rightarrow> w
      | Some balance \<Rightarrow>
          if Available balance \<le> 0 then w
          else
            let numOrders = int64 (sint (GridNum s) - int (NumOfAsks (activeOrders s))) in
            if numOrders \<le> 0 then w
            else
              let upBand = LastUpBand env in
              if upBand \<le> 0 then w
              else
                let submitOrders = askOrders env s (nat numOrders) upBand in
                case SubmitOrders env submitOrders of
                  Inl err \<Rightarrow>
                    w\<lparr>submitted := submitted w @ [submitOrders],
                      errorLog := errorLog w @ [''submit ask order error'']\<rparr>
                | Inr orders \<Rightarrow>
                    w\<lparr>strategy := s\<lparr>activeOrders := Add orders (activeOrders s)\<rparr>,
                      submitted := submitted w @ [submitOrders]\<rparr>)"

text \<open>
  Lines 168--182: the bid side first, then the ask side on the state the bid side left.
\<close>

definition updateOrders ::
  "('f, 'a::{zero,ord,minus,plus}) Env \<Rightarrow> ('f, 'a) World \<Rightarrow> ('f, 'a) World" where
  "updateOrders env w =
     (let w1 = (if int (NumOfBids (activeOrders (strategy w))) < sint (GridNum (strategy w))
                then updateBidOrders env w else w)
      in if int (NumOfAsks (activeOrders (strategy w1))) < sint (GridNum (strategy w1))
         then updateAskOrders env w1 else w1)"

section \<open>The entry point\<close>

text \<open>
  Lines 184--195 of \<^verbatim>\<open>Run\<close>: the default of \<^verbatim>\<open>GridNum\<close> and the new, empty book.
  Nothing has been submitted or logged yet.
\<close>

definition Run :: "('f, 'a) Strategy \<Rightarrow> ('f, 'a) World" where
  "Run s =
     (let s1 = (if GridNum s = 0 then s\<lparr>GridNum := 2\<rparr> else s)
      in \<lparr>strategy = s1\<lparr>activeOrders := NewLocalActiveOrderBook\<rparr>,
          submitted = [],
          errorLog = []\<rparr>)"

text \<open>
  What the goroutine of lines 218--238 does with the book: an update of the orders at
  once, then one at each tick. The ticks that come before the cancellation are a list,
  each with what the tick reads.
\<close>

fun ticks :: "('f, 'a::{zero,ord,minus,plus}) Env list \<Rightarrow> ('f, 'a) World \<Rightarrow> ('f, 'a) World" where
  "ticks [] w = w"
| "ticks (env # envs) w = ticks envs (updateOrders env w)"

definition RunLoop ::
  "('f, 'a::{zero,ord,minus,plus}) Env \<Rightarrow> ('f, 'a) Env list \<Rightarrow> ('f, 'a) Strategy \<Rightarrow> ('f, 'a) World" where
  "RunLoop env envs s = ticks envs (updateOrders env (Run s))"

section \<open>Notions used in the statements\<close>

text \<open>The statuses after which the exchange reports nothing more of an order.\<close>

definition terminal :: "OrderStatus \<Rightarrow> bool" where
  "terminal st \<longleftrightarrow>
     st = OrderStatusFilled \<or> st = OrderStatusCanceled \<or> st = OrderStatusRejected"

text \<open>
  Each mapping of the book files an order under the order's own id: the reading of
  ``a mapping from order id to order''.
\<close>

definition keyed :: "'a LocalActiveOrderBook \<Rightarrow> bool" where
  "keyed b \<longleftrightarrow>
     fmpred (\<lambda>i order. OrderID order = i) (Bids b) \<and>
     fmpred (\<lambda>i order. OrderID order = i) (Asks b)"




subsection \<open>A concrete market for the examples\<close>

definition exampleStrategy :: "(rat, rat) Strategy" where
  "exampleStrategy =
     \<lparr>Strategy.Market = \<lparr>BaseCurrency = ''BTC'', QuoteCurrency = ''USDT''\<rparr>,
      Strategy.Symbol = ''BTCUSDT'',
      GridPips = 1,
      GridNum = 3,
      BaseQuantity = 2,
      activeOrders = NewLocalActiveOrderBook\<rparr>"

text \<open>A gateway that accepts: it numbers the orders of a batch from \<open>i\<close> on.\<close>

fun assignIDs :: "64 word \<Rightarrow> 'a SubmitOrder list \<Rightarrow> 'a Order list" where
  "assignIDs i [] = []"
| "assignIDs i (request # requests) =
     \<lparr>SubmitOrder.Symbol = SubmitOrder.Symbol request,
      Side = Side request,
      Type = Type request,
      SubmitOrder.Market = SubmitOrder.Market request,
      Quantity = Quantity request,
      Price = Price request,
      TimeInForce = TimeInForce request,
      OrderID = i,
      Status = OrderStatusNew\<rparr>
     # assignIDs (i + 1) requests"

definition exampleGateway :: "'a SubmitOrder list \<Rightarrow> string + 'a Order list" where
  "exampleGateway batch =
     Inr (assignIDs
           (case batch of
              [] \<Rightarrow> 0
            | request # requests \<Rightarrow> if Side request = SideTypeBuy then 1 else 101)
           batch)"

definition exampleEnv :: "(rat, rat) Env" where
  "exampleEnv =
     \<lparr>Float64 = (\<lambda>v. v),
      Balances = [''USDT'' \<mapsto> \<lparr>Available = 1000\<rparr>, ''BTC'' \<mapsto> \<lparr>Available = 10\<rparr>],
      LastDownBand = 100,
      LastUpBand = 110,
      SubmitOrders = exampleGateway\<rparr>"

text \<open>The same market with a gateway that refuses every batch.\<close>

definition failingEnv :: "(rat, rat) Env" where
  "failingEnv = exampleEnv\<lparr>SubmitOrders := (\<lambda>batch. Inl ''gateway timeout'')\<rparr>"

text \<open>The same market with no quote currency left.\<close>

definition brokeEnv :: "(rat, rat) Env" where
  "brokeEnv =
     exampleEnv\<lparr>Balances := [''USDT'' \<mapsto> \<lparr>Available = 0\<rparr>, ''BTC'' \<mapsto> \<lparr>Available = 10\<rparr>]\<rparr>"

text \<open>A notification about the order \<open>i\<close> of the example market.\<close>

definition exampleOrder :: "64 word \<Rightarrow> SideType \<Rightarrow> OrderStatus \<Rightarrow> rat Order" where
  "exampleOrder i side st =
     \<lparr>SubmitOrder.Symbol = ''BTCUSDT'',
      Side = side,
      Type = OrderTypeLimit,
      SubmitOrder.Market = \<lparr>BaseCurrency = ''BTC'', QuoteCurrency = ''USDT''\<rparr>,
      Quantity = 2,
      Price = 100,
      TimeInForce = ''GTC'',
      OrderID = i,
      Status = st\<rparr>"

text \<open>A request of the example market, as the ladder makes it.\<close>

definition exampleRequest :: "SideType \<Rightarrow> rat \<Rightarrow> rat SubmitOrder" where
  "exampleRequest side price =
     \<lparr>SubmitOrder.Symbol = ''BTCUSDT'',
      Side = side,
      Type = OrderTypeLimit,
      SubmitOrder.Market = \<lparr>BaseCurrency = ''BTC'', QuoteCurrency = ''USDT''\<rparr>,
      Quantity = 2,
      Price = price,
      TimeInForce = ''GTC''\<rparr>"

section \<open>Auxiliary facts\<close>

subsection \<open>Go's subtraction where it does not overflow\<close>




subsection \<open>The two ladders\<close>





text \<open>
  Where the arithmetic is exact (a ring, as the rationals of the examples), the price
  that is reached by \<open>i\<close> steps is the closed form.
\<close>

lemma steps_down_exact:
  fixes p d :: "'a::ring_1"
  shows "((\<lambda>q. q - d) ^^ i) p = p - of_nat i * d"
  by (induction i) (simp_all add: algebra_simps)

lemma steps_up_exact:
  fixes p d :: "'a::ring_1"
  shows "((\<lambda>q. q + d) ^^ i) p = p + of_nat i * d"
  by (induction i) (simp_all add: algebra_simps)

subsection \<open>Evaluating the examples\<close>

lemma bidOrders_numeral:
  "bidOrders env s (numeral k) p =
     \<lparr>SubmitOrder.Symbol = Strategy.Symbol s, Side = SideTypeBuy, Type = OrderTypeLimit,
      SubmitOrder.Market = Strategy.Market s, Quantity = BaseQuantity s,
      Price = p, TimeInForce = ''GTC''\<rparr>
     # bidOrders env s (pred_numeral k) (p - Float64 env (GridPips s))"
  by (simp add: numeral_eq_Suc)

lemma askOrders_numeral:
  "askOrders env s (numeral k) p =
     \<lparr>SubmitOrder.Symbol = Strategy.Symbol s, Side = SideTypeSell, Type = OrderTypeLimit,
      SubmitOrder.Market = Strategy.Market s, Quantity = BaseQuantity s,
      Price = p, TimeInForce = ''GTC''\<rparr>
     # askOrders env s (pred_numeral k) (p + Float64 env (GridPips s))"
  by (simp add: numeral_eq_Suc)

lemmas example_defs =
  exampleStrategy_def exampleEnv_def exampleGateway_def exampleRequest_def exampleOrder_def
  failingEnv_def brokeEnv_def Run_def
  NumOfBids_def NumOfAsks_def NewLocalActiveOrderBook_def int64_def Let_def upsert_def
  fcard_fempty fcard_finsert_if bidOrders_numeral askOrders_numeral


section \<open>The ladder of a replenishment\<close>



section \<open>What a replenishment leaves alone\<close>

text \<open>Of the strategy, a replenishment changes the book and nothing else.\<close>

lemma strategy_updateBidOrders:
  "strategy (updateBidOrders env w) =
     (strategy w)\<lparr>activeOrders := activeOrders (strategy (updateBidOrders env w))\<rparr>"
  by (simp add: updateBidOrders_def Let_def split: option.splits sum.splits)

lemma strategy_updateAskOrders:
  "strategy (updateAskOrders env w) =
     (strategy w)\<lparr>activeOrders := activeOrders (strategy (updateAskOrders env w))\<rparr>"
  by (simp add: updateAskOrders_def Let_def split: option.splits sum.splits)

lemma strategy_updateOrders:
  "strategy (updateOrders env w) =
     (strategy w)\<lparr>activeOrders := activeOrders (strategy (updateOrders env w))\<rparr>"
proof -
  let ?w1 = "if int (NumOfBids (activeOrders (strategy w))) < sint (GridNum (strategy w))
             then updateBidOrders env w else w"
  have 1: "strategy ?w1 = (strategy w)\<lparr>activeOrders := activeOrders (strategy ?w1)\<rparr>"
    using strategy_updateBidOrders [of env w] by simp
  have 2: "strategy (updateOrders env w) =
             (strategy ?w1)\<lparr>activeOrders := activeOrders (strategy (updateOrders env w))\<rparr>"
    using strategy_updateAskOrders [of env ?w1] by (simp add: updateOrders_def Let_def)
  show ?thesis by (subst 2, subst 1) simp
qed

lemma GridNum_updateOrders: "GridNum (strategy (updateOrders env w)) = GridNum (strategy w)"
  by (subst strategy_updateOrders) simp

lemma GridNum_ticks: "GridNum (strategy (ticks envs w)) = GridNum (strategy w)"
  by (induction envs arbitrary: w) (simp_all add: GridNum_updateOrders)

lemma Market_updateBidOrders:
  "Strategy.Market (strategy (updateBidOrders env w)) = Strategy.Market (strategy w)"
  by (subst strategy_updateBidOrders) simp

lemma GridNum_updateBidOrders:
  "GridNum (strategy (updateBidOrders env w)) = GridNum (strategy w)"
  by (subst strategy_updateBidOrders) simp

text \<open>
  What a replenishment does to the strategy depends on the strategy alone, not on what
  was submitted or logged before.
\<close>

lemma strategy_updateBidOrders_cong:
  "strategy w = strategy w' \<Longrightarrow>
     strategy (updateBidOrders env w) = strategy (updateBidOrders env w')"
  by (simp add: updateBidOrders_def Let_def split: option.splits sum.splits)

lemma strategy_updateAskOrders_cong:
  "strategy w = strategy w' \<Longrightarrow>
     strategy (updateAskOrders env w) = strategy (updateAskOrders env w')"
  by (simp add: updateAskOrders_def Let_def split: option.splits sum.splits)

lemma strategy_updateOrders_cong:
  assumes "strategy w = strategy w'"
  shows "strategy (updateOrders env w) = strategy (updateOrders env w')"
proof -
  let ?b = "\<lambda>w. if int (NumOfBids (activeOrders (strategy w))) < sint (GridNum (strategy w))
             then updateBidOrders env w else w"
  have 1: "strategy (?b w) = strategy (?b w')"
    using assms strategy_updateBidOrders_cong [OF assms, of env] by simp
  have 2: "strategy (updateOrders env v) =
      (if int (NumOfAsks (activeOrders (strategy (?b v)))) < sint (GridNum (strategy (?b v)))
       then strategy (updateAskOrders env (?b v)) else strategy (?b v))" for v
    by (simp add: updateOrders_def Let_def)
  show ?thesis
    unfolding 2 using 1 strategy_updateAskOrders_cong [OF 1] by simp
qed

section \<open>The default of the target count\<close>

text \<open>
  Claim C10. A strategy started with a target count \<^verbatim>\<open>GridNum\<close> of 0 has the target
  count 2 once \<^verbatim>\<open>Run\<close> has set it up, and keeps it through the first update of the
  orders and every tick after it.
\<close>

theorem default_GridNum:
  "GridNum s = 0 \<Longrightarrow>
     GridNum (strategy (Run s)) = 2 \<and> GridNum (strategy (RunLoop env envs s)) = 2"
  by (simp add: RunLoop_def GridNum_ticks GridNum_updateOrders) (simp add: Run_def)

theorem default_GridNum_witness:
  "GridNum (exampleStrategy\<lparr>GridNum := 0\<rparr>) = 0 \<and>
   GridNum (strategy (Run (exampleStrategy\<lparr>GridNum := 0\<rparr>))) = 2 \<and>
   GridNum (strategy (RunLoop exampleEnv [exampleEnv] (exampleStrategy\<lparr>GridNum := 0\<rparr>))) = 2"
  using default_GridNum [of "exampleStrategy\<lparr>GridNum := 0\<rparr>" exampleEnv "[exampleEnv]"]
  by simp

section \<open>A side without balance or band\<close>

text \<open>
  Claim C7. When the balance of the quote currency is absent or not positive, or the
  lower band is not positive, the bid side changes nothing: no batch is submitted, no
  error is logged, the book stays; and the replenishment is then what the ask side
  alone does. The same holds for the ask side with the base currency and the upper
  band, the replenishment being what the bid side alone does.
\<close>

theorem unavailable_side_is_skipped:
  fixes env :: "('f, 'a::{zero,ord,minus,plus}) Env" and w :: "('f, 'a) World"
  defines "s \<equiv> strategy w"
  shows
    "((Balances env (QuoteCurrency (Strategy.Market s)) = None \<or>
       (\<exists>bal. Balances env (QuoteCurrency (Strategy.Market s)) = Some bal \<and> Available bal \<le> 0) \<or>
       LastDownBand env \<le> 0) \<longrightarrow>
      updateBidOrders env w = w \<and>
      updateOrders env w =
        (if int (NumOfAsks (activeOrders s)) < sint (GridNum s) then updateAskOrders env w else w)) \<and>
     ((Balances env (BaseCurrency (Strategy.Market s)) = None \<or>
       (\<exists>bal. Balances env (BaseCurrency (Strategy.Market s)) = Some bal \<and> Available bal \<le> 0) \<or>
       LastUpBand env \<le> 0) \<longrightarrow>
      updateAskOrders env w = w \<and>
      updateOrders env w =
        (if int (NumOfBids (activeOrders s)) < sint (GridNum s) then updateBidOrders env w else w))"
proof (intro conjI impI)
  assume c: "Balances env (QuoteCurrency (Strategy.Market s)) = None \<or>
       (\<exists>bal. Balances env (QuoteCurrency (Strategy.Market s)) = Some bal \<and> Available bal \<le> 0) \<or>
       LastDownBand env \<le> 0"
  then show b: "updateBidOrders env w = w"
    by (auto simp: updateBidOrders_def Let_def s_def split: option.splits)
  then show "updateOrders env w =
        (if int (NumOfAsks (activeOrders s)) < sint (GridNum s) then updateAskOrders env w else w)"
    by (simp add: updateOrders_def s_def)
next
  assume c: "Balances env (BaseCurrency (Strategy.Market s)) = None \<or>
       (\<exists>bal. Balances env (BaseCurrency (Strategy.Market s)) = Some bal \<and> Available bal \<le> 0) \<or>
       LastUpBand env \<le> 0"
  have skip: "updateAskOrders env w' = w'" if "Strategy.Market (strategy w') = Strategy.Market s" for w'
    using c that by (auto simp: updateAskOrders_def Let_def split: option.splits)
  show "updateAskOrders env w = w"
    by (rule skip) (simp add: s_def)
  show "updateOrders env w =
        (if int (NumOfBids (activeOrders s)) < sint (GridNum s) then updateBidOrders env w else w)"
    by (simp add: updateOrders_def Let_def s_def skip Market_updateBidOrders)
qed

text \<open>
  With no quote currency left, the bid side does nothing and the replenishment submits
  the three asks, without an error.
\<close>

theorem unavailable_side_is_skipped_witness:
  "updateBidOrders brokeEnv (Run exampleStrategy) = Run exampleStrategy \<and>
   submitted (updateOrders brokeEnv (Run exampleStrategy)) =
     [[exampleRequest SideTypeSell 110, exampleRequest SideTypeSell 111,
       exampleRequest SideTypeSell 112]] \<and>
   errorLog (updateOrders brokeEnv (Run exampleStrategy)) = []"
proof -
  let ?w = "Run exampleStrategy"
  have broke: "\<exists>bal. Balances brokeEnv (QuoteCurrency (Strategy.Market (strategy ?w))) = Some bal \<and>
      Available bal \<le> 0"
    by (simp add: example_defs)
  have gate: "int (NumOfAsks (activeOrders (strategy ?w))) < sint (GridNum (strategy ?w))"
    by (simp add: example_defs)
  from unavailable_side_is_skipped [where env = brokeEnv and w = ?w] broke gate
  have skipped: "updateBidOrders brokeEnv ?w = ?w"
    and rest: "updateOrders brokeEnv ?w = updateAskOrders brokeEnv ?w"
    by simp_all
  have asks: "submitted (updateAskOrders brokeEnv ?w) =
     [[exampleRequest SideTypeSell 110, exampleRequest SideTypeSell 111,
       exampleRequest SideTypeSell 112]]"
    by (simp add: updateAskOrders_def example_defs)
  have quiet: "errorLog (updateAskOrders brokeEnv ?w) = []"
    by (simp add: updateAskOrders_def example_defs)
  show ?thesis
    unfolding rest skipped asks quiet by simp
qed

section \<open>A submission that fails\<close>

text \<open>
  Claim C6. When the gateway answers the batch of a side with an error, the strategy,
  and so its book, is after the side's update what it was before. When the gateway
  refuses every batch, the whole replenishment leaves the strategy as it was, and the
  next replenishment does to the strategy what it would have done without the failed
  one: it computes the same deficits. The functions return a state and no error, so
  none leaves the loop.
\<close>

theorem failed_submission_keeps_book:
  fixes env env' :: "('f, 'a::{zero,ord,minus,plus}) Env" and w :: "('f, 'a) World"
  defines "s \<equiv> strategy w"
  defines "bids \<equiv> bidOrders env s
             (nat (int64 (sint (GridNum s) - int (NumOfBids (activeOrders s))))) (LastDownBand env)"
  defines "asks \<equiv> askOrders env s
             (nat (int64 (sint (GridNum s) - int (NumOfAsks (activeOrders s))))) (LastUpBand env)"
  shows
    "(isl (SubmitOrders env bids) \<longrightarrow> strategy (updateBidOrders env w) = s) \<and>
     (isl (SubmitOrders env asks) \<longrightarrow> strategy (updateAskOrders env w) = s) \<and>
     ((\<forall>batch. isl (SubmitOrders env batch)) \<longrightarrow>
        strategy (updateOrders env w) = s \<and>
        strategy (updateOrders env' (updateOrders env w)) = strategy (updateOrders env' w))"
proof (intro conjI impI)
  assume "isl (SubmitOrders env bids)"
  then show "strategy (updateBidOrders env w) = s"
    by (auto simp: updateBidOrders_def Let_def s_def bids_def split: option.splits sum.splits)
next
  assume "isl (SubmitOrders env asks)"
  then show "strategy (updateAskOrders env w) = s"
    by (auto simp: updateAskOrders_def Let_def s_def asks_def split: option.splits sum.splits)
next
  assume fails: "\<forall>batch. isl (SubmitOrders env batch)"
  have refused: "SubmitOrders env batch \<noteq> Inr orders" for batch orders
  proof
    assume "SubmitOrders env batch = Inr orders"
    moreover from fails have "isl (SubmitOrders env batch)" ..
    ultimately show False by simp
  qed
  have b: "strategy (updateBidOrders env v) = strategy v" for v
    by (simp add: updateBidOrders_def Let_def refused split: option.splits sum.splits)
  have a: "strategy (updateAskOrders env v) = strategy v" for v
    by (simp add: updateAskOrders_def Let_def refused split: option.splits sum.splits)
  show same: "strategy (updateOrders env w) = s"
    by (simp add: updateOrders_def Let_def a b s_def)
  show "strategy (updateOrders env' (updateOrders env w)) = strategy (updateOrders env' w)"
    by (rule strategy_updateOrders_cong) (simp add: same s_def)
qed

text \<open>
  With the gateway that refuses every batch, both sides of the example submit, both
  errors are logged, and the book stays empty; the next replenishment fills it.
\<close>

theorem failed_submission_keeps_book_witness:
  "strategy (updateBidOrders failingEnv (Run exampleStrategy)) = strategy (Run exampleStrategy) \<and>
   strategy (updateAskOrders failingEnv (Run exampleStrategy)) = strategy (Run exampleStrategy) \<and>
   strategy (updateOrders failingEnv (Run exampleStrategy)) = strategy (Run exampleStrategy) \<and>
   strategy (updateOrders exampleEnv (updateOrders failingEnv (Run exampleStrategy))) =
     strategy (updateOrders exampleEnv (Run exampleStrategy)) \<and>
   errorLog (updateOrders failingEnv (Run exampleStrategy)) =
     [''submit bid order error'', ''submit ask order error'']"
proof -
  have fails: "isl (SubmitOrders failingEnv batch)" for batch
    by (simp add: failingEnv_def)
  have logged: "errorLog (updateOrders failingEnv (Run exampleStrategy)) =
     [''submit bid order error'', ''submit ask order error'']"
    by (simp add: updateOrders_def updateBidOrders_def updateAskOrders_def example_defs)
  from failed_submission_keeps_book
         [where env = failingEnv and env' = exampleEnv and w = "Run exampleStrategy"]
       fails logged
  show ?thesis by simp
qed

section \<open>The book and the reconciler\<close>

subsection \<open>Which ids the book tracks\<close>

lemma Delete_untracked: "\<not> tracked (OrderID order) b \<Longrightarrow> Delete order b = b"
  by (simp add: tracked_def Delete_def fmdrop_idle)

lemma tracked_Delete: "tracked i (Delete order b) \<longleftrightarrow> i \<noteq> OrderID order \<and> tracked i b"
  by (auto simp: tracked_def Delete_def)

lemma tracked_upsert: "tracked i (upsert order b) \<longleftrightarrow> i = OrderID order \<or> tracked i b"
  by (cases "Side order") (auto simp: tracked_def upsert_def)

lemma tracked_Add:
  "tracked i (Add orders b) \<longleftrightarrow> i \<in> OrderID ` set orders \<or> tracked i b"
  by (induction orders arbitrary: b) (auto simp: tracked_upsert)

lemma fmran_one: "fmran (fmupd k v fmempty) = {|v|}"
proof (rule fset_eqI)
  fix x
  show "x |\<in>| fmran (fmupd k v fmempty) \<longleftrightarrow> x |\<in>| {|v|}"
    by (auto simp: fmlookup_ran_iff split: if_splits)
qed

subsection \<open>The three ways of a notification\<close>

text \<open>
  A notification is ignored (another symbol), removes by id (a terminal status) or
  upserts (any other status). Of the strategy it changes the book only.
\<close>

lemma strategy_OnOrderUpdate:
  "OnOrderUpdate order s = s\<lparr>activeOrders := activeOrders (OnOrderUpdate order s)\<rparr>"
  by (simp add: OnOrderUpdate_def split: OrderStatus.splits)

lemma Symbol_OnOrderUpdate:
  "Strategy.Symbol (OnOrderUpdate order s) = Strategy.Symbol s"
  by (subst strategy_OnOrderUpdate) simp

lemma OnOrderUpdate_terminal:
  "SubmitOrder.Symbol order = Strategy.Symbol s \<Longrightarrow> terminal (Status order) \<Longrightarrow>
     OnOrderUpdate order s = s\<lparr>activeOrders := Delete order (activeOrders s)\<rparr>"
  by (auto simp: OnOrderUpdate_def terminal_def WriteOff_def)

lemma OnOrderUpdate_open:
  "SubmitOrder.Symbol order = Strategy.Symbol s \<Longrightarrow> \<not> terminal (Status order) \<Longrightarrow>
     OnOrderUpdate order s = s\<lparr>activeOrders := upsert order (activeOrders s)\<rparr>"
  by (cases "Status order") (auto simp: OnOrderUpdate_def terminal_def)

lemma OnOrderUpdate_other:
  "SubmitOrder.Symbol order \<noteq> Strategy.Symbol s \<Longrightarrow> OnOrderUpdate order s = s"
  by (simp add: OnOrderUpdate_def)

lemmas reconciler_defs =
  OnOrderUpdate_def WriteOff_def Delete_def tracked_def terminal_def



subsection \<open>Orders are filed under their own ids\<close>

text \<open>
  The empty book is keyed, and the operations of the book keep it so: every book that
  the strategy reaches from \<^verbatim>\<open>Run\<close> is keyed.
\<close>

lemma keyed_New: "keyed NewLocalActiveOrderBook"
  by (simp add: keyed_def NewLocalActiveOrderBook_def)

lemma keyed_upsert: "keyed b \<Longrightarrow> keyed (upsert order b)"
  by (cases "Side order") (auto simp: keyed_def upsert_def)

lemma keyed_Add: "keyed b \<Longrightarrow> keyed (Add orders b)"
  by (induction orders arbitrary: b) (simp_all add: keyed_upsert)

lemma keyed_Delete: "keyed b \<Longrightarrow> keyed (Delete order b)"
  by (auto simp: keyed_def Delete_def)

lemma keyed_OnOrderUpdate: "keyed (activeOrders s) \<Longrightarrow> keyed (activeOrders (OnOrderUpdate order s))"
  by (cases "Status order")
    (simp_all add: OnOrderUpdate_def WriteOff_def keyed_Delete keyed_upsert)

lemma keyed_updateOrders:
  assumes "keyed (activeOrders (strategy w))"
  shows "keyed (activeOrders (strategy (updateOrders env w)))"
proof -
  have b: "keyed (activeOrders (strategy (updateBidOrders env v)))"
    if "keyed (activeOrders (strategy v))" for v
    using that by (simp add: updateBidOrders_def Let_def keyed_Add split: option.splits sum.splits)
  have a: "keyed (activeOrders (strategy (updateAskOrders env v)))"
    if "keyed (activeOrders (strategy v))" for v
    using that by (simp add: updateAskOrders_def Let_def keyed_Add split: option.splits sum.splits)
  from assms show ?thesis
    by (simp add: updateOrders_def Let_def a b)
qed

lemma keyed_Run: "keyed (activeOrders (strategy (Run s)))"
  by (simp add: Run_def keyed_New)

lemma Orders_Delete:
  assumes "keyed b" and "order' |\<in>| Orders (Delete order b)"
  shows "OrderID order' \<noteq> OrderID order"
proof -
  from assms(2) consider
      i where "fmlookup (fmdrop (OrderID order) (Bids b)) i = Some order'"
    | i where "fmlookup (fmdrop (OrderID order) (Asks b)) i = Some order'"
    by (auto simp: Orders_def Delete_def fmlookup_ran_iff simp del: fmran_drop)
  then show ?thesis
  proof cases
    case 1
    then have "i \<noteq> OrderID order" and "fmlookup (Bids b) i = Some order'"
      by (auto split: if_splits)
    with assms(1) show ?thesis by (auto simp: keyed_def fmpred_iff)
  next
    case 2
    then have "i \<noteq> OrderID order" and "fmlookup (Asks b) i = Some order'"
      by (auto split: if_splits)
    with assms(1) show ?thesis by (auto simp: keyed_def fmpred_iff)
  qed
qed

section \<open>Notifications that change nothing\<close>

text \<open>
  Claim C2, as the code has it. A notification for another instrument than the
  configured symbol leaves the strategy, and so the book, unchanged. So does a
  notification with a terminal status (filled, canceled, rejected) for an id that is not
  tracked. A notification of the configured symbol with any other status is upserted:
  its id is tracked afterwards, whether it was before or not.
\<close>

theorem ignored_notifications:
  "(SubmitOrder.Symbol order \<noteq> Strategy.Symbol s \<longrightarrow> OnOrderUpdate order s = s) \<and>
   (\<not> tracked (OrderID order) (activeOrders s) \<and> terminal (Status order) \<longrightarrow>
      OnOrderUpdate order s = s) \<and>
   (SubmitOrder.Symbol order = Strategy.Symbol s \<and> \<not> terminal (Status order) \<longrightarrow>
      activeOrders (OnOrderUpdate order s) = upsert order (activeOrders s) \<and>
      tracked (OrderID order) (activeOrders (OnOrderUpdate order s)))"
proof (intro conjI impI)
  assume "SubmitOrder.Symbol order \<noteq> Strategy.Symbol s"
  then show "OnOrderUpdate order s = s" by (rule OnOrderUpdate_other)
next
  assume a: "\<not> tracked (OrderID order) (activeOrders s) \<and> terminal (Status order)"
  show "OnOrderUpdate order s = s"
  proof (cases "SubmitOrder.Symbol order = Strategy.Symbol s")
    case True
    with a show ?thesis by (simp add: OnOrderUpdate_terminal Delete_untracked)
  next
    case False
    then show ?thesis by (rule OnOrderUpdate_other)
  qed
next
  assume a: "SubmitOrder.Symbol order = Strategy.Symbol s \<and> \<not> terminal (Status order)"
  then show u: "activeOrders (OnOrderUpdate order s) = upsert order (activeOrders s)"
    by (simp add: OnOrderUpdate_open)
  show "tracked (OrderID order) (activeOrders (OnOrderUpdate order s))"
    unfolding u by (simp add: tracked_upsert)
qed

text \<open>
  On the empty book of the example: a notification for another symbol and a
  cancellation of the unknown order 7 change nothing; a partial fill of the unknown
  order 7 makes it tracked.
\<close>

theorem ignored_notifications_witness:
  "OnOrderUpdate ((exampleOrder 7 SideTypeBuy OrderStatusNew)\<lparr>SubmitOrder.Symbol := ''ETHUSDT''\<rparr>)
     (strategy (Run exampleStrategy)) = strategy (Run exampleStrategy) \<and>
   OnOrderUpdate (exampleOrder 7 SideTypeBuy OrderStatusCanceled) (strategy (Run exampleStrategy)) =
     strategy (Run exampleStrategy) \<and>
   tracked 7 (activeOrders
     (OnOrderUpdate (exampleOrder 7 SideTypeBuy OrderStatusPartiallyFilled)
        (strategy (Run exampleStrategy))))"
proof -
  let ?s = "strategy (Run exampleStrategy)"
  have 1: "SubmitOrder.Symbol ((exampleOrder 7 SideTypeBuy OrderStatusNew)\<lparr>SubmitOrder.Symbol := ''ETHUSDT''\<rparr>)
      \<noteq> Strategy.Symbol ?s"
    by (simp add: example_defs)
  have 2: "\<not> tracked (OrderID (exampleOrder 7 SideTypeBuy OrderStatusCanceled)) (activeOrders ?s) \<and>
      terminal (Status (exampleOrder 7 SideTypeBuy OrderStatusCanceled))"
    by (simp add: example_defs tracked_def terminal_def)
  have 3: "SubmitOrder.Symbol (exampleOrder 7 SideTypeBuy OrderStatusPartiallyFilled) = Strategy.Symbol ?s \<and>
      \<not> terminal (Status (exampleOrder 7 SideTypeBuy OrderStatusPartiallyFilled))"
    by (simp add: example_defs terminal_def)
  have id: "OrderID (exampleOrder 7 SideTypeBuy OrderStatusPartiallyFilled) = 7"
    by (simp add: exampleOrder_def)
  from ignored_notifications
         [of "(exampleOrder 7 SideTypeBuy OrderStatusNew)\<lparr>SubmitOrder.Symbol := ''ETHUSDT''\<rparr>" ?s] 1
  have a: "OnOrderUpdate
      ((exampleOrder 7 SideTypeBuy OrderStatusNew)\<lparr>SubmitOrder.Symbol := ''ETHUSDT''\<rparr>) ?s = ?s"
    by blast
  from ignored_notifications [of "exampleOrder 7 SideTypeBuy OrderStatusCanceled" ?s] 2
  have b: "OnOrderUpdate (exampleOrder 7 SideTypeBuy OrderStatusCanceled) ?s = ?s"
    by blast
  from ignored_notifications [of "exampleOrder 7 SideTypeBuy OrderStatusPartiallyFilled" ?s] 3
  have "tracked (OrderID (exampleOrder 7 SideTypeBuy OrderStatusPartiallyFilled))
      (activeOrders (OnOrderUpdate (exampleOrder 7 SideTypeBuy OrderStatusPartiallyFilled) ?s))"
    by blast
  then have c: "tracked 7
      (activeOrders (OnOrderUpdate (exampleOrder 7 SideTypeBuy OrderStatusPartiallyFilled) ?s))"
    by (simp only: id)
  from a b c show ?thesis by (intro conjI)
qed

text \<open>
  The claim as it is written fails: the order 7 is not tracked in the empty book, and
  the notification that it is new, on the configured symbol, puts it into the bids.
\<close>

theorem untracked_notification_counterexample:
  "\<not> tracked (OrderID (exampleOrder 7 SideTypeBuy OrderStatusNew))
       (activeOrders (strategy (Run exampleStrategy))) \<and>
   NumOfBids (activeOrders (strategy (Run exampleStrategy))) = 0 \<and>
   NumOfBids (activeOrders
     (OnOrderUpdate (exampleOrder 7 SideTypeBuy OrderStatusNew) (strategy (Run exampleStrategy)))) = 1 \<and>
   activeOrders (OnOrderUpdate (exampleOrder 7 SideTypeBuy OrderStatusNew) (strategy (Run exampleStrategy)))
     \<noteq> activeOrders (strategy (Run exampleStrategy))"
  by (simp add: example_defs reconciler_defs)

section \<open>Terminal orders\<close>




section \<open>The removal by a terminal notification\<close>

text \<open>
  Claim C5. A notification of the configured symbol with status filled, canceled or
  rejected has one and the same effect on the book, the removal of its id: the id is
  tracked on neither side afterwards, the count of the side that had it is one less and
  the other count is as before, and in a keyed book no order of the snapshot has the
  id.
\<close>

theorem terminal_notification_removes:
  assumes "SubmitOrder.Symbol order = Strategy.Symbol s"
    and "terminal (Status order)"
  shows
    "activeOrders (OnOrderUpdate order s) = Delete order (activeOrders s) \<and>
     \<not> tracked (OrderID order) (activeOrders (OnOrderUpdate order s)) \<and>
     NumOfBids (activeOrders (OnOrderUpdate order s)) =
       (if OrderID order |\<in>| fmdom (Bids (activeOrders s))
        then NumOfBids (activeOrders s) - 1 else NumOfBids (activeOrders s)) \<and>
     NumOfAsks (activeOrders (OnOrderUpdate order s)) =
       (if OrderID order |\<in>| fmdom (Asks (activeOrders s))
        then NumOfAsks (activeOrders s) - 1 else NumOfAsks (activeOrders s)) \<and>
     (keyed (activeOrders s) \<longrightarrow>
        (\<forall>order'. order' |\<in>| Orders (activeOrders (OnOrderUpdate order s)) \<longrightarrow>
           OrderID order' \<noteq> OrderID order))"
proof -
  have d: "activeOrders (OnOrderUpdate order s) = Delete order (activeOrders s)"
    using assms by (simp add: OnOrderUpdate_terminal)
  have "\<not> tracked (OrderID order) (Delete order (activeOrders s))"
    by (simp add: tracked_Delete)
  moreover have "NumOfBids (Delete order (activeOrders s)) =
       (if OrderID order |\<in>| fmdom (Bids (activeOrders s))
        then NumOfBids (activeOrders s) - 1 else NumOfBids (activeOrders s))"
    by (simp add: NumOfBids_def Delete_def fcard_fminus_fsingleton_if)
  moreover have "NumOfAsks (Delete order (activeOrders s)) =
       (if OrderID order |\<in>| fmdom (Asks (activeOrders s))
        then NumOfAsks (activeOrders s) - 1 else NumOfAsks (activeOrders s))"
    by (simp add: NumOfAsks_def Delete_def fcard_fminus_fsingleton_if)
  moreover have "keyed (activeOrders s) \<longrightarrow>
        (\<forall>order'. order' |\<in>| Orders (Delete order (activeOrders s)) \<longrightarrow>
           OrderID order' \<noteq> OrderID order)"
    using Orders_Delete by blast
  ultimately show ?thesis unfolding d by simp
qed

text \<open>
  A book with the bid 1 and the ask 2: when the bid 1 is filled, no bid and one ask are
  left, the snapshot is the ask 2, and a cancellation would have left the same book.
\<close>

theorem terminal_notification_removes_witness:
  "NumOfBids (activeOrders
     (OnOrderUpdates
        [exampleOrder 1 SideTypeBuy OrderStatusNew, exampleOrder 2 SideTypeSell OrderStatusNew]
        (strategy (Run exampleStrategy)))) = 1 \<and>
   NumOfBids (activeOrders
     (OnOrderUpdate (exampleOrder 1 SideTypeBuy OrderStatusFilled)
        (OnOrderUpdates
           [exampleOrder 1 SideTypeBuy OrderStatusNew, exampleOrder 2 SideTypeSell OrderStatusNew]
           (strategy (Run exampleStrategy))))) = 0 \<and>
   NumOfAsks (activeOrders
     (OnOrderUpdate (exampleOrder 1 SideTypeBuy OrderStatusFilled)
        (OnOrderUpdates
           [exampleOrder 1 SideTypeBuy OrderStatusNew, exampleOrder 2 SideTypeSell OrderStatusNew]
           (strategy (Run exampleStrategy))))) = 1 \<and>
   Orders (activeOrders
     (OnOrderUpdate (exampleOrder 1 SideTypeBuy OrderStatusFilled)
        (OnOrderUpdates
           [exampleOrder 1 SideTypeBuy OrderStatusNew, exampleOrder 2 SideTypeSell OrderStatusNew]
           (strategy (Run exampleStrategy))))) = {|exampleOrder 2 SideTypeSell OrderStatusNew|} \<and>
   activeOrders
     (OnOrderUpdate (exampleOrder 1 SideTypeBuy OrderStatusCanceled)
        (OnOrderUpdates
           [exampleOrder 1 SideTypeBuy OrderStatusNew, exampleOrder 2 SideTypeSell OrderStatusNew]
           (strategy (Run exampleStrategy)))) =
   activeOrders
     (OnOrderUpdate (exampleOrder 1 SideTypeBuy OrderStatusFilled)
        (OnOrderUpdates
           [exampleOrder 1 SideTypeBuy OrderStatusNew, exampleOrder 2 SideTypeSell OrderStatusNew]
           (strategy (Run exampleStrategy))))"
proof -
  let ?s = "OnOrderUpdates
        [exampleOrder 1 SideTypeBuy OrderStatusNew, exampleOrder 2 SideTypeSell OrderStatusNew]
        (strategy (Run exampleStrategy))"
  let ?b = "\<lparr>Bids = fmupd 1 (exampleOrder 1 SideTypeBuy OrderStatusNew) fmempty,
       Asks = fmupd 2 (exampleOrder 2 SideTypeSell OrderStatusNew) fmempty\<rparr>"
  have book: "activeOrders ?s = ?b"
    by (simp add: example_defs reconciler_defs fmdrop_fmupd)
  have sym: "Strategy.Symbol ?s = ''BTCUSDT''"
    by (simp add: Symbol_OnOrderUpdate example_defs)
  have ids: "OrderID (exampleOrder 1 SideTypeBuy OrderStatusFilled) = 1"
      "OrderID (exampleOrder 1 SideTypeBuy OrderStatusCanceled) = 1"
    by (simp_all add: exampleOrder_def)
  have 1: "SubmitOrder.Symbol (exampleOrder 1 SideTypeBuy OrderStatusFilled) = Strategy.Symbol ?s"
      "SubmitOrder.Symbol (exampleOrder 1 SideTypeBuy OrderStatusCanceled) = Strategy.Symbol ?s"
    unfolding sym by (simp_all add: exampleOrder_def)
  have 2: "terminal (Status (exampleOrder 1 SideTypeBuy OrderStatusFilled))"
      "terminal (Status (exampleOrder 1 SideTypeBuy OrderStatusCanceled))"
    by (simp_all add: exampleOrder_def terminal_def)
  note filled = terminal_notification_removes [OF 1(1) 2(1), unfolded ids book]
  note canceled = terminal_notification_removes [OF 1(2) 2(2), unfolded ids book]
  have before: "NumOfBids (activeOrders ?s) = 1"
    unfolding book by (simp add: NumOfBids_def fcard_finsert_if fcard_fempty)
  from filled have f1: "activeOrders (OnOrderUpdate (exampleOrder 1 SideTypeBuy OrderStatusFilled) ?s) =
      Delete (exampleOrder 1 SideTypeBuy OrderStatusFilled) ?b"
    by (rule conjunct1)
  from canceled have c1: "activeOrders (OnOrderUpdate (exampleOrder 1 SideTypeBuy OrderStatusCanceled) ?s) =
      Delete (exampleOrder 1 SideTypeBuy OrderStatusCanceled) ?b"
    by (rule conjunct1)
  have same: "Delete (exampleOrder 1 SideTypeBuy OrderStatusCanceled) ?b =
      Delete (exampleOrder 1 SideTypeBuy OrderStatusFilled) ?b"
    by (simp add: Delete_def ids)
  have after: "Delete (exampleOrder 1 SideTypeBuy OrderStatusFilled) ?b =
      \<lparr>Bids = fmempty, Asks = fmupd 2 (exampleOrder 2 SideTypeSell OrderStatusNew) fmempty\<rparr>"
    by (simp add: Delete_def ids fmdrop_fmupd)
  have bids: "NumOfBids \<lparr>Bids = fmempty,
      Asks = fmupd 2 (exampleOrder 2 SideTypeSell OrderStatusNew) fmempty\<rparr> = 0"
    by (simp add: NumOfBids_def)
  have asks: "NumOfAsks \<lparr>Bids = fmempty,
      Asks = fmupd 2 (exampleOrder 2 SideTypeSell OrderStatusNew) fmempty\<rparr> = 1"
    by (simp add: NumOfAsks_def fcard_finsert_if fcard_fempty)
  have snap: "Orders \<lparr>Bids = fmempty,
      Asks = fmupd 2 (exampleOrder 2 SideTypeSell OrderStatusNew) fmempty\<rparr> =
      {|exampleOrder 2 SideTypeSell OrderStatusNew|}"
    by (simp add: Orders_def fmran_one)
  show ?thesis
    unfolding c1 same f1 after before bids asks snap by simp
qed

section \<open>A second replenishment\<close>

subsection \<open>Accepted orders fill the side\<close>






subsection \<open>One side of a replenishment\<close>






subsection \<open>Idempotence\<close>



end
